theory Spec2Isabelle
  imports Complex_Main
begin

section \<open>Values, exceptions and subscription\<close>

text \<open>
  The two tools of \<^verbatim>\<open>agent.py\<close> build and take apart dictionaries of type
  \<^verbatim>\<open>Dict[str, Any]\<close>. The values are Python's plain data: a dictionary is an association
  list in insertion order, a float is the real number it denotes.
\<close>

datatype pyval =
    PyNone
  | PyBool bool
  | PyInt int
  | PyFloat real
  | PyStr string
  | PyList "pyval list"
  | PyDict "(string \<times> pyval) list"

text \<open>
  The exceptions that can leave the tools: the two that a subscription \<^verbatim>\<open>d["k"]\<close> raises,
  and any other exception class, by name, raised inside an external helper.
\<close>

datatype exn =
    KeyError string
  | TypeError
  | OtherError string

text \<open>
  \<^verbatim>\<open>d[k]\<close> with a string key: a dictionary without the key raises KeyError, and every other
  value of \<open>pyval\<close> raises TypeError (None, numbers and booleans are not subscriptable, a
  string or a list takes no string index).
\<close>

fun getitem :: "pyval \<Rightarrow> string \<Rightarrow> exn + pyval" where
  "getitem (PyDict kvs) k =
     (case map_of kvs k of None \<Rightarrow> Inl (KeyError k) | Some v \<Rightarrow> Inr v)"
| "getitem _ k = Inl TypeError"

text \<open>An \<^verbatim>\<open>Optional[str]\<close> argument as a value: None or the string.\<close>

fun opt_str :: "string option \<Rightarrow> pyval" where
  "opt_str None = PyNone"
| "opt_str (Some s) = PyStr s"

text \<open>
  A dictionary in which the object stored under \<open>k\<close> has become \<open>v\<close>, as after an
  in-place change of that object: the keys and their order stay, and a key that is not
  there is not added.
\<close>

fun with_entry :: "(string \<times> pyval) list \<Rightarrow> string \<Rightarrow> pyval \<Rightarrow> (string \<times> pyval) list" where
  "with_entry [] k v = []"
| "with_entry ((k', v') # kvs) k v =
     (if k' = k then (k', v) # kvs else (k', v') # with_entry kvs k v)"

fun with_item :: "pyval \<Rightarrow> string \<Rightarrow> pyval \<Rightarrow> pyval" where
  "with_item (PyDict kvs) k v = PyDict (with_entry kvs k v)"
| "with_item d k v = d"

section \<open>Deps and the agent\<close>

datatype AsyncClient = AsyncClient nat

record Deps =
  client :: AsyncClient
  moderation_api_key :: "string option"
  custom_content_policies :: "(string \<times> string list) list option"
  sensitivity_threshold :: real
  store_flagged_content :: bool
  auto_moderate :: bool

text \<open>
  The constructor the \<^verbatim>\<open>@dataclass\<close> decorator generates: \<open>client\<close> is required, every other
  field is a keyword with a default, taken when the keyword is left out (\<open>None\<close> here). It
  stores what it is given and checks nothing. The literal \<^verbatim>\<open>0.7\<close> is modelled as \<open>7/10\<close>.
\<close>

definition Deps_init ::
  "AsyncClient \<Rightarrow> string option \<Rightarrow> (string \<times> string list) list option \<Rightarrow>
   real option \<Rightarrow> bool option \<Rightarrow> bool option \<Rightarrow> Deps" where
  "Deps_init cl api_key policies threshold store auto =
     \<lparr> client = cl,
       moderation_api_key = api_key,
       custom_content_policies = policies,
       sensitivity_threshold = (case threshold of None \<Rightarrow> 7 / 10 | Some t \<Rightarrow> t),
       store_flagged_content = (case store of None \<Rightarrow> True | Some b \<Rightarrow> b),
       auto_moderate = (case auto of None \<Rightarrow> False | Some b \<Rightarrow> b) \<rparr>"

text \<open>
  What \<^verbatim>\<open>Agent(...)\<close> is given. \<^verbatim>\<open>SYSTEM_PROMPT\<close> comes from the module
  \<^verbatim>\<open>agent_prompts\<close> and is a parameter; \<open>tools\<close> lists the functions the
  \<^verbatim>\<open>@text_moderation_agent.tool\<close> decorator registers, in order.
\<close>

record Agent =
  model :: string
  system_prompt :: string
  retries :: nat
  tools :: "string list"

definition text_moderation_agent :: "string \<Rightarrow> Agent" where
  "text_moderation_agent SYSTEM_PROMPT =
     \<lparr> model = ''openai:gpt-4o'',
       system_prompt = SYSTEM_PROMPT,
       retries = 2,
       tools = [''analyze_text'', ''get_moderation_recommendation''] \<rparr>"

section \<open>The run context and the external helpers\<close>

text \<open>
  \<^verbatim>\<open>ctx\<close> is passed by reference to every helper, and \<open>Deps\<close> is an ordinary (not frozen)
  dataclass, so a helper can reach and change \<open>ctx.deps\<close> as well as the world outside
  (the network, the moderation service). A helper is therefore a function from the context
  before the call to its outcome, a value or an exception, and the context after it.
\<close>

record 'w RunContext =
  deps :: Deps
  world :: 'w

type_synonym 'w helper_result = "(exn + pyval) \<times> 'w RunContext"

text \<open>
  The five functions imported from \<^verbatim>\<open>agent_tools\<close>, whose bodies are not part of
  \<^verbatim>\<open>agent.py\<close>: they are parameters, with the arguments they have at their call sites.
  The first three take strings, which no callee can change. The other two are handed
  objects by reference, \<^verbatim>\<open>analysis_result\<close> itself at line 97 and the objects
  \<^verbatim>\<open>analysis_result["text"]\<close> and \<^verbatim>\<open>decision["reasons"]\<close> at line 102, and the tool goes on
  reading these objects after the call: such a helper also yields each of these arguments
  as it leaves it. A helper reaches these objects through its arguments only, and the
  objects stored under different keys are distinct.
\<close>

record 'w agent_tools =
  check_text_toxicity :: "'w RunContext \<Rightarrow> string \<Rightarrow> 'w helper_result"
  detect_sensitive_information :: "'w RunContext \<Rightarrow> string \<Rightarrow> 'w helper_result"
  categorize_content :: "'w RunContext \<Rightarrow> string \<Rightarrow> string option \<Rightarrow> 'w helper_result"
  suggest_content_edits ::
    "'w RunContext \<Rightarrow> pyval \<Rightarrow> pyval \<Rightarrow> (exn + pyval) \<times> 'w RunContext \<times> pyval \<times> pyval"
  get_moderation_decision ::
    "'w RunContext \<Rightarrow> (string \<times> pyval) list \<Rightarrow>
     (exn + pyval) \<times> 'w RunContext \<times> (string \<times> pyval) list"

section \<open>Awaited calls\<close>

text \<open>
  A coroutine body maps the state it starts in to its outcome, the state it ends in and
  the log of the helper calls it made: one \<open>Call\<close> when a helper is entered, one \<open>Return\<close>
  when the \<^verbatim>\<open>await\<close> on it is over. For \<open>analyze_text\<close> the state is the run context.
\<close>

datatype helper =
    CheckTextToxicity
  | DetectSensitiveInformation
  | CategorizeContent
  | SuggestContentEdits
  | GetModerationDecision

datatype event =
    Call helper "pyval list"
  | Return helper "exn + pyval"

type_synonym 's routine = "'s \<Rightarrow> (exn + pyval) \<times> 's \<times> event list"

type_synonym 'w coroutine = "'w RunContext routine"

definition await :: "helper \<Rightarrow> pyval list \<Rightarrow> ('s \<Rightarrow> (exn + pyval) \<times> 's) \<Rightarrow> 's routine" where
  "await h args f c = (case f c of (r, c') \<Rightarrow> (r, c', [Call h args, Return h r]))"

text \<open>A step without a helper call: an expression that yields a value or raises.\<close>

definition expr :: "exn + pyval \<Rightarrow> 's routine" where
  "expr r c = (r, c, [])"

text \<open>The same for an expression over the objects of the state, as they are now.\<close>

definition read :: "('s \<Rightarrow> exn + pyval) \<Rightarrow> 's routine" where
  "read g c = (g c, c, [])"

text \<open>
  Sequencing: the rest of the body runs on the value of the first step, in the state
  that step left, and is skipped when the step raised. No step is wrapped in a
  \<^verbatim>\<open>try\<close>, so this is the only way two steps are put together.
\<close>

definition bind :: "'s routine \<Rightarrow> (pyval \<Rightarrow> 's routine) \<Rightarrow> 's routine" where
  "bind m k c =
     (case m c of
        (Inl e, c1, t1) \<Rightarrow> (Inl e, c1, t1)
      | (Inr v, c1, t1) \<Rightarrow> (case k v c1 of (r, c2, t2) \<Rightarrow> (r, c2, t1 @ t2)))"

text \<open>The three parts of a finished run.\<close>

definition result :: "(exn + pyval) \<times> 's \<times> event list \<Rightarrow> exn + pyval" where
  "result run = fst run"

definition ctx_after :: "(exn + pyval) \<times> 's \<times> event list \<Rightarrow> 's" where
  "ctx_after run = fst (snd run)"

definition call_log :: "(exn + pyval) \<times> 's \<times> event list \<Rightarrow> event list" where
  "call_log run = snd (snd run)"

section \<open>The two tools\<close>

text \<open>
  \<^verbatim>\<open>logfire.span\<close> only records a tracing span (its attributes \<^verbatim>\<open>len(text)\<close> and
  \<^verbatim>\<open>context is not None\<close> are defined for every \<^verbatim>\<open>str\<close> and every optional); it is
  left out.
\<close>

definition analyze_text ::
  "'w agent_tools \<Rightarrow> string \<Rightarrow> string option \<Rightarrow> string option \<Rightarrow> 'w coroutine" where
  "analyze_text agent_tools text context user_id =
     bind (await CheckTextToxicity [PyStr text]
            (\<lambda>ctx. check_text_toxicity agent_tools ctx text)) (\<lambda>toxicity_result.
     bind (await DetectSensitiveInformation [PyStr text]
            (\<lambda>ctx. detect_sensitive_information agent_tools ctx text)) (\<lambda>sensitive_info.
     bind (await CategorizeContent [PyStr text, opt_str context]
            (\<lambda>ctx. categorize_content agent_tools ctx text context)) (\<lambda>categories.
     expr (Inr (PyDict
       [(''text'', PyStr text),
        (''toxicity'', toxicity_result),
        (''sensitive_information'', sensitive_info),
        (''categories'', categories),
        (''context'', opt_str context),
        (''user_id'', opt_str user_id)])))))"

text \<open>
  The state of a run of \<^verbatim>\<open>get_moderation_recommendation\<close>: the run context and the two
  dictionaries its lines subscript, \<^verbatim>\<open>analysis_result\<close> and \<^verbatim>\<open>decision\<close>
  (\<open>decision_dict\<close> is bound by line 97 and not read before).
\<close>

record 'w frame = "'w RunContext" +
  analysis_dict :: "(string \<times> pyval) list"
  decision_dict :: pyval

definition frame_of :: "'w RunContext \<Rightarrow> (string \<times> pyval) list \<Rightarrow> pyval \<Rightarrow> 'w frame" where
  "frame_of ctx analysis_result decision =
     RunContext.extend ctx \<lparr>analysis_dict = analysis_result, decision_dict = decision\<rparr>"

text \<open>
  Line 97, the call: the helper gets the context and \<^verbatim>\<open>analysis_result\<close>, and leaves both
  as it pleases.
\<close>

definition decision_call :: "'w agent_tools \<Rightarrow> 'w frame \<Rightarrow> (exn + pyval) \<times> 'w frame" where
  "decision_call agent_tools fr =
     (case get_moderation_decision agent_tools (RunContext.truncate fr) (analysis_dict fr) of
        (r, ctx', analysis_result') \<Rightarrow>
          (r, fr\<lparr>deps := deps ctx', world := world ctx', analysis_dict := analysis_result'\<rparr>))"

text \<open>Line 97, the assignment to \<^verbatim>\<open>decision\<close>.\<close>

definition bind_decision :: "pyval \<Rightarrow> 'w frame routine" where
  "bind_decision d fr = (Inr d, fr\<lparr>decision_dict := d\<rparr>, [])"

text \<open>
  Line 102, the call: the two argument objects stay where they are stored, under
  \<^verbatim>\<open>"text"\<close> and \<^verbatim>\<open>"reasons"\<close>, in the state the helper leaves them in.
\<close>

definition edits_call :: "'w agent_tools \<Rightarrow> pyval \<Rightarrow> pyval \<Rightarrow> 'w frame \<Rightarrow> (exn + pyval) \<times> 'w frame" where
  "edits_call agent_tools text reasons fr =
     (case suggest_content_edits agent_tools (RunContext.truncate fr) text reasons of
        (r, ctx', text', reasons') \<Rightarrow>
          (r, fr\<lparr>deps := deps ctx', world := world ctx',
                 analysis_dict := with_entry (analysis_dict fr) ''text'' text',
                 decision_dict := with_item (decision_dict fr) ''reasons'' reasons'\<rparr>))"

text \<open>
  The conditional of lines 100 to 102: \<^verbatim>\<open>ctx.deps.auto_moderate\<close> is read in the context
  the decision helper left. The arguments of the edit helper are evaluated left to right
  before the call.
\<close>

definition suggested_edits_step :: "'w agent_tools \<Rightarrow> pyval \<Rightarrow> 'w frame routine" where
  "suggested_edits_step agent_tools action fr =
     (if action \<noteq> PyStr ''approve'' \<and> auto_moderate (deps fr) then
        bind (read (\<lambda>fr. getitem (PyDict (analysis_dict fr)) ''text'')) (\<lambda>text.
        bind (read (\<lambda>fr. getitem (decision_dict fr) ''reasons'')) (\<lambda>reasons.
        await SuggestContentEdits [text, reasons] (edits_call agent_tools text reasons))) fr
      else expr (Inr PyNone) fr)"

text \<open>
  The dictionary display of lines 104 to 113: its subscripts are evaluated top to bottom,
  the first that fails ends it, and no helper runs in between.
\<close>

definition recommendation_display :: "'w frame \<Rightarrow> pyval \<Rightarrow> exn + pyval" where
  "recommendation_display fr suggested_edits =
     (case getitem (PyDict (analysis_dict fr)) ''text'' of Inl e \<Rightarrow> Inl e
      | Inr original_text \<Rightarrow>
     (case getitem (decision_dict fr) ''action'' of Inl e \<Rightarrow> Inl e
      | Inr decision_action \<Rightarrow>
     (case getitem (decision_dict fr) ''confidence'' of Inl e \<Rightarrow> Inl e
      | Inr confidence \<Rightarrow>
     (case getitem (decision_dict fr) ''reasons'' of Inl e \<Rightarrow> Inl e
      | Inr reasons \<Rightarrow>
     (case getitem (decision_dict fr) ''policy_violations'' of Inl e \<Rightarrow> Inl e
      | Inr policy_violations \<Rightarrow>
     (case getitem (PyDict (analysis_dict fr)) ''toxicity'' of Inl e \<Rightarrow> Inl e
      | Inr toxicity_scores \<Rightarrow>
     (case getitem (PyDict (analysis_dict fr)) ''categories'' of Inl e \<Rightarrow> Inl e
      | Inr categories \<Rightarrow>
         Inr (PyDict
           [(''original_text'', original_text),
            (''decision'', decision_action),
            (''confidence'', confidence),
            (''reasons'', reasons),
            (''policy_violations'', policy_violations),
            (''suggested_edits'', suggested_edits),
            (''toxicity_scores'', toxicity_scores),
            (''categories'', categories)]))))))))"

definition get_moderation_recommendation ::
  "'w agent_tools \<Rightarrow> (string \<times> pyval) list \<Rightarrow> 'w RunContext \<Rightarrow>
   (exn + pyval) \<times> 'w frame \<times> event list" where
  "get_moderation_recommendation agent_tools analysis_result ctx =
     (bind (await GetModerationDecision [PyDict analysis_result]
             (decision_call agent_tools)) (\<lambda>d.
      bind (bind_decision d) (\<lambda>decision.
      bind (read (\<lambda>fr. getitem (decision_dict fr) ''action'')) (\<lambda>action.
      bind (suggested_edits_step agent_tools action) (\<lambda>suggested_edits.
      read (\<lambda>fr. recommendation_display fr suggested_edits))))))
     (frame_of ctx analysis_result PyNone)"

section \<open>Reading a call log\<close>

fun is_call :: "helper \<Rightarrow> event \<Rightarrow> bool" where
  "is_call h (Call h' args) = (h' = h)"
| "is_call h (Return h' r) = False"

definition calls_of :: "helper \<Rightarrow> event list \<Rightarrow> nat" where
  "calls_of h tr = length (filter (is_call h) tr)"


text \<open>
  A run in which nothing was handled: an exception that a helper call of the log ended
  in is the outcome of the run.
\<close>

definition unhandled :: "(exn + pyval) \<times> 's \<times> event list \<Rightarrow> bool" where
  "unhandled run \<longleftrightarrow> (\<forall>h e. Return h (Inl e) \<in> set (call_log run) \<longrightarrow> result run = Inl e)"

text \<open>A step that ends with the \<open>deps\<close> it started with.\<close>

definition keeps_deps :: "('w, 'z) RunContext_scheme routine \<Rightarrow> bool" where
  "keeps_deps m \<longleftrightarrow> (\<forall>ctx. deps (ctx_after (m ctx)) = deps ctx)"

section \<open>Assumptions on the helpers\<close>

text \<open>No helper assigns to a field of \<open>ctx.deps\<close>, whatever else it does to the world.\<close>

definition helpers_keep_deps :: "'w agent_tools \<Rightarrow> bool" where
  "helpers_keep_deps agent_tools \<longleftrightarrow>
     (\<forall>ctx text. deps (snd (check_text_toxicity agent_tools ctx text)) = deps ctx) \<and>
     (\<forall>ctx text. deps (snd (detect_sensitive_information agent_tools ctx text)) = deps ctx) \<and>
     (\<forall>ctx text context.
        deps (snd (categorize_content agent_tools ctx text context)) = deps ctx) \<and>
     (\<forall>ctx text reasons.
        deps (fst (snd (suggest_content_edits agent_tools ctx text reasons))) = deps ctx) \<and>
     (\<forall>ctx analysis_result.
        deps (fst (snd (get_moderation_decision agent_tools ctx analysis_result))) = deps ctx)"


text \<open>
  Modelled from the spec: the body of \<^verbatim>\<open>get_moderation_decision\<close> (module
  \<^verbatim>\<open>agent_tools\<close>) is missing. The data model of the spec describes what it yields, a
  moderation decision: a "mapping containing action (one of approve/flag_for_review/reject),
  confidence score, list of reasons, list of policy violations".
\<close>

definition moderation_actions :: "string list" where
  "moderation_actions = [''approve'', ''flag_for_review'', ''reject'']"

fun is_list :: "exn + pyval \<Rightarrow> bool" where
  "is_list (Inr (PyList xs)) = True"
| "is_list _ = False"

fun is_action :: "exn + pyval \<Rightarrow> bool" where
  "is_action (Inr (PyStr a)) = (a \<in> set moderation_actions)"
| "is_action _ = False"

definition is_moderation_decision :: "pyval \<Rightarrow> bool" where
  "is_moderation_decision d \<longleftrightarrow>
     is_action (getitem d ''action'') \<and>
     \<not> isl (getitem d ''confidence'') \<and>
     is_list (getitem d ''reasons'') \<and>
     is_list (getitem d ''policy_violations'')"

text \<open>
  Modelled from the spec: the contract of the missing \<^verbatim>\<open>get_moderation_decision\<close>, that
  whatever it returns is a moderation decision in the sense above.
\<close>

definition decision_helper_spec :: "'w agent_tools \<Rightarrow> bool" where
  "decision_helper_spec agent_tools \<longleftrightarrow>
     (\<forall>ctx analysis_result d ctx' analysis_result'.
        get_moderation_decision agent_tools ctx analysis_result =
          (Inr d, ctx', analysis_result') \<longrightarrow>
        is_moderation_decision d)"

section \<open>Sample helpers and inputs\<close>

text \<open>
  Helpers that stand for a moderation service: the world is the number of requests sent
  so far, and each helper sends one.
\<close>

definition request :: "nat RunContext \<Rightarrow> nat RunContext" where
  "request ctx = ctx\<lparr>world := Suc (world ctx)\<rparr>"

definition sample_decision_entries :: "string \<Rightarrow> (string \<times> pyval) list" where
  "sample_decision_entries action =
     [(''action'', PyStr action),
      (''confidence'', PyFloat (9 / 10)),
      (''reasons'', PyList [PyStr ''insult'']),
      (''policy_violations'', PyList [PyStr ''harassment''])]"

definition sample_decision :: "string \<Rightarrow> pyval" where
  "sample_decision action = PyDict (sample_decision_entries action)"

definition sample_tools :: "string \<Rightarrow> nat agent_tools" where
  "sample_tools action =
     \<lparr> check_text_toxicity = (\<lambda>ctx text. (Inr (PyDict [(''insult'', PyFloat (4 / 5))]), request ctx)),
       detect_sensitive_information = (\<lambda>ctx text. (Inr (PyList []), request ctx)),
       categorize_content = (\<lambda>ctx text context. (Inr (PyList [PyStr ''harassment'']), request ctx)),
       suggest_content_edits =
         (\<lambda>ctx text reasons. (Inr (PyStr ''you are wrong''), request ctx, text, reasons)),
       get_moderation_decision =
         (\<lambda>ctx analysis_result. (Inr (sample_decision action), request ctx, analysis_result)) \<rparr>"

text \<open>The same service with the edit endpoint down.\<close>

definition edits_down_tools :: "nat agent_tools" where
  "edits_down_tools =
     (sample_tools ''reject'')
       \<lparr> suggest_content_edits :=
           (\<lambda>ctx text reasons. (Inl (OtherError ''ConnectError''), ctx, text, reasons)) \<rparr>"

text \<open>The same service with the categorisation endpoint down.\<close>

definition categories_down_tools :: "nat agent_tools" where
  "categories_down_tools =
     (sample_tools ''reject'')
       \<lparr> categorize_content := (\<lambda>ctx text context. (Inl (OtherError ''ConnectError''), ctx)) \<rparr>"

definition sample_ctx :: "bool \<Rightarrow> nat RunContext" where
  "sample_ctx auto =
     \<lparr> deps = Deps_init (AsyncClient 0) None None None None (Some auto), world = 0 \<rparr>"

definition sample_analysis :: "(string \<times> pyval) list" where
  "sample_analysis =
     [(''text'', PyStr ''you are an idiot''),
      (''toxicity'', PyDict [(''insult'', PyFloat (4 / 5))]),
      (''sensitive_information'', PyList []),
      (''categories'', PyList [PyStr ''harassment'']),
      (''context'', PyNone),
      (''user_id'', PyStr ''u1'')]"

text \<open>An analysis result without its \<open>toxicity\<close> entry.\<close>

definition partial_analysis :: "(string \<times> pyval) list" where
  "partial_analysis =
     [(''text'', PyStr ''you are an idiot''),
      (''categories'', PyList [PyStr ''harassment''])]"

text \<open>What the recommendation for \<open>sample_analysis\<close> looks like.\<close>

definition sample_recommendation :: "string \<Rightarrow> pyval \<Rightarrow> pyval" where
  "sample_recommendation action edits =
     PyDict [(''original_text'', PyStr ''you are an idiot''),
             (''decision'', PyStr action),
             (''confidence'', PyFloat (9 / 10)),
             (''reasons'', PyList [PyStr ''insult'']),
             (''policy_violations'', PyList [PyStr ''harassment'']),
             (''suggested_edits'', edits),
             (''toxicity_scores'', PyDict [(''insult'', PyFloat (4 / 5))]),
             (''categories'', PyList [PyStr ''harassment''])]"

text \<open>An analysis result without its \<open>text\<close> entry.\<close>

definition textless_analysis :: "(string \<times> pyval) list" where
  "textless_analysis =
     [(''toxicity'', PyDict [(''insult'', PyFloat (4 / 5))]),
      (''categories'', PyList [PyStr ''harassment''])]"


section \<open>Stepping through a body\<close>

lemma getitem_Nil: "getitem (PyDict []) k = Inl (KeyError k)"
  by simp

lemma getitem_Cons:
  "getitem (PyDict ((k', v) # kvs)) k = (if k = k' then Inr v else getitem (PyDict kvs) k)"
  by simp

lemmas getitem_lit = getitem_Nil getitem_Cons getitem.simps(2-)



lemma map_of_with_entry:
  "map_of (with_entry kvs k v) k' =
     (if k' = k then map_option (\<lambda>_. v) (map_of kvs k) else map_of kvs k')"
  by (induction kvs) auto


lemma getitem_with_item_other:
  "k' \<noteq> k \<Longrightarrow> getitem (with_item d k v) k' = getitem d k'"
  by (cases d) (simp_all add: map_of_with_entry)

lemmas step_defs = bind_def await_def expr_def read_def bind_decision_def
lemmas tool_defs = analyze_text_def get_moderation_recommendation_def suggested_edits_step_def
lemmas sample_defs = sample_tools_def sample_decision_def sample_decision_entries_def
  edits_down_tools_def
  categories_down_tools_def sample_ctx_def sample_analysis_def partial_analysis_def request_def
  Deps_init_def sample_recommendation_def
lemmas run_defs = result_def ctx_after_def call_log_def

lemma expr_parts:
  "result (expr x c) = x" "ctx_after (expr x c) = c" "call_log (expr x c) = []"
  by (simp_all add: expr_def run_defs)

lemma read_parts:
  "result (read g c) = g c" "ctx_after (read g c) = c" "call_log (read g c) = []"
  by (simp_all add: read_def run_defs)

lemma bind_decision_parts:
  "result (bind_decision d fr) = Inr d"
  "ctx_after (bind_decision d fr) = fr\<lparr>decision_dict := d\<rparr>"
  "call_log (bind_decision d fr) = []"
  by (simp_all add: bind_decision_def run_defs)

lemma await_parts:
  "result (await h args f c) = fst (f c)"
  "ctx_after (await h args f c) = snd (f c)"
  "call_log (await h args f c) = [Call h args, Return h (fst (f c))]"
  by (simp_all add: await_def run_defs split: prod.splits)

lemma bind_parts:
  "result (bind m k c) =
     (case result (m c) of Inl e \<Rightarrow> Inl e | Inr v \<Rightarrow> result (k v (ctx_after (m c))))"
  "ctx_after (bind m k c) =
     (case result (m c) of Inl e \<Rightarrow> ctx_after (m c)
      | Inr v \<Rightarrow> ctx_after (k v (ctx_after (m c))))"
  "call_log (bind m k c) =
     call_log (m c) @
     (case result (m c) of Inl e \<Rightarrow> [] | Inr v \<Rightarrow> call_log (k v (ctx_after (m c))))"
  by (simp_all add: bind_def run_defs split: prod.splits sum.splits)

lemma calls_of_simps:
  "calls_of h [] = 0"
  "calls_of h (Call h' args # tr) = (if h' = h then Suc (calls_of h tr) else calls_of h tr)"
  "calls_of h (Return h' r # tr) = calls_of h tr"
  "calls_of h (tr @ tr') = calls_of h tr + calls_of h tr'"
  by (simp_all add: calls_of_def)

lemmas parts = expr_parts read_parts bind_decision_parts await_parts bind_parts calls_of_simps


text \<open>The state a run of the tool starts in, and the states after its two calls.\<close>

lemma frame_of_fields:
  "deps (frame_of ctx a d) = deps ctx"
  "world (frame_of ctx a d) = world ctx"
  "analysis_dict (frame_of ctx a d) = a"
  "decision_dict (frame_of ctx a d) = d"
  "RunContext.truncate (frame_of ctx a d) = ctx"
  "(frame_of ctx a d)\<lparr>decision_dict := d'\<rparr> = frame_of ctx a d'"
  by (cases ctx; simp add: frame_of_def RunContext.defs)+

lemma decision_call_frame:
  assumes "get_moderation_decision agent_tools ctx analysis_result = (r, ctx1, analysis_result1)"
  shows "decision_call agent_tools (frame_of ctx analysis_result d) =
           (r, frame_of ctx1 analysis_result1 d)"
  using assms
  by (cases ctx; cases ctx1) (simp add: decision_call_def frame_of_def RunContext.defs)

lemma edits_call_frame:
  assumes "suggest_content_edits agent_tools ctx1 text reasons = (r, ctx2, text', reasons')"
  shows "edits_call agent_tools text reasons (frame_of ctx1 a d) =
           (r, frame_of ctx2 (with_entry a ''text'' text') (with_item d ''reasons'' reasons'))"
  using assms
  by (cases ctx1; cases ctx2) (simp add: edits_call_def frame_of_def RunContext.defs)

lemma suggested_edits_step_skip:
  assumes "\<not> (action \<noteq> PyStr ''approve'' \<and> auto_moderate (deps ctx1))"
  shows "suggested_edits_step agent_tools action (frame_of ctx1 a d) =
           (Inr PyNone, frame_of ctx1 a d, [])"
  using assms by (auto simp: suggested_edits_step_def frame_of_fields expr_def)

lemma suggested_edits_step_no_text:
  assumes "action \<noteq> PyStr ''approve''" and "auto_moderate (deps ctx1)"
      and "getitem (PyDict a) ''text'' = Inl e"
  shows "suggested_edits_step agent_tools action (frame_of ctx1 a d) = (Inl e, frame_of ctx1 a d, [])"
  using assms
  by (simp add: suggested_edits_step_def frame_of_fields bind_def read_def del: getitem.simps)

lemma suggested_edits_step_no_reasons:
  assumes "action \<noteq> PyStr ''approve''" and "auto_moderate (deps ctx1)"
      and "getitem (PyDict a) ''text'' = Inr text" and "getitem d ''reasons'' = Inl e"
  shows "suggested_edits_step agent_tools action (frame_of ctx1 a d) = (Inl e, frame_of ctx1 a d, [])"
  using assms
  by (simp add: suggested_edits_step_def frame_of_fields bind_def read_def del: getitem.simps)

lemma suggested_edits_step_call:
  assumes "action \<noteq> PyStr ''approve''" and "auto_moderate (deps ctx1)"
      and "getitem (PyDict a) ''text'' = Inr text" and "getitem d ''reasons'' = Inr reasons"
      and "suggest_content_edits agent_tools ctx1 text reasons = (r, ctx2, text', reasons')"
  shows "suggested_edits_step agent_tools action (frame_of ctx1 a d) =
           (r, frame_of ctx2 (with_entry a ''text'' text') (with_item d ''reasons'' reasons'),
            [Call SuggestContentEdits [text, reasons], Return SuggestContentEdits r])"
  using assms
  by (simp add: suggested_edits_step_def frame_of_fields bind_def read_def await_def
      edits_call_frame del: getitem.simps)

text \<open>The whole run, from what line 97 gave.\<close>

lemma recommendation_decision_raised:
  assumes "get_moderation_decision agent_tools ctx analysis_result = (Inl e, ctx1, a1)"
  shows "get_moderation_recommendation agent_tools analysis_result ctx =
           (Inl e, frame_of ctx1 a1 PyNone,
            [Call GetModerationDecision [PyDict analysis_result],
             Return GetModerationDecision (Inl e)])"
  using assms
  by (simp add: get_moderation_recommendation_def bind_def await_def decision_call_frame)

lemma recommendation_no_action:
  assumes "get_moderation_decision agent_tools ctx analysis_result = (Inr d, ctx1, a1)"
      and "getitem d ''action'' = Inl e"
  shows "get_moderation_recommendation agent_tools analysis_result ctx =
           (Inl e, frame_of ctx1 a1 d,
            [Call GetModerationDecision [PyDict analysis_result],
             Return GetModerationDecision (Inr d)])"
  using assms
  by (simp add: get_moderation_recommendation_def bind_def await_def decision_call_frame
      bind_decision_def read_def frame_of_fields del: getitem.simps)

lemma recommendation_step_raised:
  assumes "get_moderation_decision agent_tools ctx analysis_result = (Inr d, ctx1, a1)"
      and "getitem d ''action'' = Inr action"
      and "suggested_edits_step agent_tools action (frame_of ctx1 a1 d) = (Inl e, fr, t)"
  shows "get_moderation_recommendation agent_tools analysis_result ctx =
           (Inl e, fr,
            Call GetModerationDecision [PyDict analysis_result] #
            Return GetModerationDecision (Inr d) # t)"
  using assms
  by (simp add: get_moderation_recommendation_def bind_def await_def decision_call_frame
      bind_decision_def read_def frame_of_fields del: getitem.simps)

lemma recommendation_step_returned:
  assumes "get_moderation_decision agent_tools ctx analysis_result = (Inr d, ctx1, a1)"
      and "getitem d ''action'' = Inr action"
      and "suggested_edits_step agent_tools action (frame_of ctx1 a1 d) = (Inr v, fr, t)"
  shows "get_moderation_recommendation agent_tools analysis_result ctx =
           (recommendation_display fr v, fr,
            Call GetModerationDecision [PyDict analysis_result] #
            Return GetModerationDecision (Inr d) # t)"
  using assms
  by (simp add: get_moderation_recommendation_def bind_def await_def decision_call_frame
      bind_decision_def read_def frame_of_fields del: getitem.simps)

section \<open>Sample runs\<close>

lemma run_analyze:
  "analyze_text (sample_tools a) ''you are an idiot'' None (Some ''u1'') (sample_ctx b) =
     (Inr (PyDict sample_analysis),
      (sample_ctx b)\<lparr>world := 3\<rparr>,
      [Call CheckTextToxicity [PyStr ''you are an idiot''],
       Return CheckTextToxicity (Inr (PyDict [(''insult'', PyFloat (4 / 5))])),
       Call DetectSensitiveInformation [PyStr ''you are an idiot''],
       Return DetectSensitiveInformation (Inr (PyList [])),
       Call CategorizeContent [PyStr ''you are an idiot'', PyNone],
       Return CategorizeContent (Inr (PyList [PyStr ''harassment'']))])"
  by (simp add: analyze_text_def step_defs sample_defs)

lemma run_analyze_down:
  "analyze_text categories_down_tools ''you are an idiot'' None (Some ''u1'') (sample_ctx b) =
     (Inl (OtherError ''ConnectError''),
      (sample_ctx b)\<lparr>world := 2\<rparr>,
      [Call CheckTextToxicity [PyStr ''you are an idiot''],
       Return CheckTextToxicity (Inr (PyDict [(''insult'', PyFloat (4 / 5))])),
       Call DetectSensitiveInformation [PyStr ''you are an idiot''],
       Return DetectSensitiveInformation (Inr (PyList [])),
       Call CategorizeContent [PyStr ''you are an idiot'', PyNone],
       Return CategorizeContent (Inl (OtherError ''ConnectError''))])"
  by (simp add: analyze_text_def step_defs sample_defs)

lemmas frame_defs = decision_call_def edits_call_def frame_of_def RunContext.defs
  recommendation_display_def

lemma run_recommend_edits:
  "get_moderation_recommendation (sample_tools ''reject'') sample_analysis (sample_ctx True) =
     (Inr (sample_recommendation ''reject'' (PyStr ''you are wrong'')),
      frame_of ((sample_ctx True)\<lparr>world := 2\<rparr>) sample_analysis (sample_decision ''reject''),
      [Call GetModerationDecision [PyDict sample_analysis],
       Return GetModerationDecision (Inr (sample_decision ''reject'')),
       Call SuggestContentEdits [PyStr ''you are an idiot'', PyList [PyStr ''insult'']],
       Return SuggestContentEdits (Inr (PyStr ''you are wrong''))])"
  by (simp add: tool_defs step_defs sample_defs frame_defs)

lemma run_recommend_plain:
  "get_moderation_recommendation (sample_tools ''reject'') sample_analysis (sample_ctx False) =
     (Inr (sample_recommendation ''reject'' PyNone),
      frame_of ((sample_ctx False)\<lparr>world := 1\<rparr>) sample_analysis (sample_decision ''reject''),
      [Call GetModerationDecision [PyDict sample_analysis],
       Return GetModerationDecision (Inr (sample_decision ''reject''))])"
  by (simp add: tool_defs step_defs sample_defs frame_defs)

lemma run_recommend_partial:
  "get_moderation_recommendation (sample_tools ''reject'') partial_analysis (sample_ctx True) =
     (Inl (KeyError ''toxicity''),
      frame_of ((sample_ctx True)\<lparr>world := 2\<rparr>) partial_analysis (sample_decision ''reject''),
      [Call GetModerationDecision [PyDict partial_analysis],
       Return GetModerationDecision (Inr (sample_decision ''reject'')),
       Call SuggestContentEdits [PyStr ''you are an idiot'', PyList [PyStr ''insult'']],
       Return SuggestContentEdits (Inr (PyStr ''you are wrong''))])"
  by (simp add: tool_defs step_defs sample_defs frame_defs)

lemma run_recommend_down:
  "get_moderation_recommendation edits_down_tools partial_analysis (sample_ctx True) =
     (Inl (OtherError ''ConnectError''),
      frame_of ((sample_ctx True)\<lparr>world := 1\<rparr>) partial_analysis (sample_decision ''reject''),
      [Call GetModerationDecision [PyDict partial_analysis],
       Return GetModerationDecision (Inr (sample_decision ''reject'')),
       Call SuggestContentEdits [PyStr ''you are an idiot'', PyList [PyStr ''insult'']],
       Return SuggestContentEdits (Inl (OtherError ''ConnectError''))])"
  by (simp add: tool_defs step_defs sample_defs frame_defs)

lemma run_recommend_textless:
  "get_moderation_recommendation (sample_tools ''reject'') textless_analysis (sample_ctx True) =
     (Inl (KeyError ''text''),
      frame_of ((sample_ctx True)\<lparr>world := 1\<rparr>) textless_analysis (sample_decision ''reject''),
      [Call GetModerationDecision [PyDict textless_analysis],
       Return GetModerationDecision (Inr (sample_decision ''reject''))])"
  by (simp add: tool_defs step_defs sample_defs frame_defs textless_analysis_def)


section \<open>analyze_text\<close>

text \<open>
  C2. Whenever \<open>analyze_text\<close> returns, what it returns is a dictionary with exactly the
  six keys text, toxicity, sensitive_information, categories, context and user_id, in
  that order, and the entries text, context and user_id are the arguments it was given.
\<close>

theorem analyze_text_keys:
  assumes "result (analyze_text agent_tools text context user_id ctx) = Inr r"
  shows "\<exists>m. r = PyDict m \<and>
           map fst m = [''text'', ''toxicity'', ''sensitive_information'', ''categories'',
                        ''context'', ''user_id''] \<and>
           map_of m ''text'' = Some (PyStr text) \<and>
           map_of m ''context'' = Some (opt_str context) \<and>
           map_of m ''user_id'' = Some (opt_str user_id)"
  using assms
  by (auto simp: analyze_text_def step_defs run_defs split: prod.splits sum.splits)

theorem analyze_text_keys_witness:
  "result (analyze_text (sample_tools ''reject'') ''you are an idiot'' None (Some ''u1'')
            (sample_ctx False)) = Inr (PyDict sample_analysis) \<and>
   map fst sample_analysis =
     [''text'', ''toxicity'', ''sensitive_information'', ''categories'', ''context'', ''user_id''] \<and>
   map_of sample_analysis ''text'' = Some (PyStr ''you are an idiot'') \<and>
   map_of sample_analysis ''context'' = Some PyNone \<and>
   map_of sample_analysis ''user_id'' = Some (PyStr ''u1'')"
proof -
  have run: "result (analyze_text (sample_tools ''reject'') ''you are an idiot'' None (Some ''u1'')
               (sample_ctx False)) = Inr (PyDict sample_analysis)"
    by (simp add: run_analyze result_def)
  from analyze_text_keys [OF run] run show ?thesis
    by simp
qed

text \<open>
  C3. \<open>analyze_text\<close> handles nothing and checks nothing: for every text, context and
  user id its outcome is the exception of the first of the three helper calls that
  raises, passed on as it is, and the six-entry dictionary when none does. Here \<open>r1\<close>,
  \<open>r2\<close>, \<open>r3\<close> name the outcomes of the toxicity check, of the sensitive-information
  detection in the context the first call left, and of the categorisation in the context
  the second left.
\<close>

theorem analyze_text_propagates:
  assumes "check_text_toxicity agent_tools ctx text = (r1, ctx1)"
      and "detect_sensitive_information agent_tools ctx1 text = (r2, ctx2)"
      and "categorize_content agent_tools ctx2 text context = (r3, ctx3)"
  shows "result (analyze_text agent_tools text context user_id ctx) =
           (case r1 of Inl e \<Rightarrow> Inl e
            | Inr toxicity_result \<Rightarrow>
                (case r2 of Inl e \<Rightarrow> Inl e
                 | Inr sensitive_info \<Rightarrow>
                     (case r3 of Inl e \<Rightarrow> Inl e
                      | Inr categories \<Rightarrow>
                          Inr (PyDict [(''text'', PyStr text),
                                       (''toxicity'', toxicity_result),
                                       (''sensitive_information'', sensitive_info),
                                       (''categories'', categories),
                                       (''context'', opt_str context),
                                       (''user_id'', opt_str user_id)]))))"
  using assms
  by (auto simp: tool_defs step_defs run_defs split: prod.splits sum.splits)

theorem analyze_text_propagates_witness:
  "result (analyze_text categories_down_tools ''you are an idiot'' None (Some ''u1'')
            (sample_ctx False)) = Inl (OtherError ''ConnectError'')"
proof -
  have 1: "check_text_toxicity categories_down_tools (sample_ctx False) ''you are an idiot'' =
             (Inr (PyDict [(''insult'', PyFloat (4 / 5))]), request (sample_ctx False))"
    by (simp add: categories_down_tools_def sample_tools_def)
  have 2: "detect_sensitive_information categories_down_tools (request (sample_ctx False))
             ''you are an idiot'' = (Inr (PyList []), request (request (sample_ctx False)))"
    by (simp add: categories_down_tools_def sample_tools_def)
  have 3: "categorize_content categories_down_tools (request (request (sample_ctx False)))
             ''you are an idiot'' None =
             (Inl (OtherError ''ConnectError''), request (request (sample_ctx False)))"
    by (simp add: categories_down_tools_def sample_tools_def)
  from analyze_text_propagates [OF 1 2 3, of "Some ''u1''"] show ?thesis
    by simp
qed

text \<open>
  C4. A run of \<open>analyze_text\<close> that returns has called each of the three helpers exactly
  once, the toxicity check first, then the sensitive-information detection, then the
  categorisation; each call has returned before the next is made, and each helper starts
  in the context the one before it left.
\<close>

theorem analyze_text_call_order:
  assumes "result (analyze_text agent_tools text context user_id ctx) = Inr r"
  shows "\<exists>toxicity_result ctx1 sensitive_info ctx2 categories.
           check_text_toxicity agent_tools ctx text = (Inr toxicity_result, ctx1) \<and>
           detect_sensitive_information agent_tools ctx1 text = (Inr sensitive_info, ctx2) \<and>
           categorize_content agent_tools ctx2 text context =
             (Inr categories, ctx_after (analyze_text agent_tools text context user_id ctx)) \<and>
           call_log (analyze_text agent_tools text context user_id ctx) =
             [Call CheckTextToxicity [PyStr text],
              Return CheckTextToxicity (Inr toxicity_result),
              Call DetectSensitiveInformation [PyStr text],
              Return DetectSensitiveInformation (Inr sensitive_info),
              Call CategorizeContent [PyStr text, opt_str context],
              Return CategorizeContent (Inr categories)]"
  using assms
  by (auto simp: tool_defs step_defs run_defs split: prod.splits sum.splits)

theorem analyze_text_call_order_witness:
  "result (analyze_text (sample_tools ''reject'') ''you are an idiot'' None (Some ''u1'')
            (sample_ctx False)) = Inr (PyDict sample_analysis) \<and>
   call_log (analyze_text (sample_tools ''reject'') ''you are an idiot'' None (Some ''u1'')
            (sample_ctx False)) =
     [Call CheckTextToxicity [PyStr ''you are an idiot''],
      Return CheckTextToxicity (Inr (PyDict [(''insult'', PyFloat (4 / 5))])),
      Call DetectSensitiveInformation [PyStr ''you are an idiot''],
      Return DetectSensitiveInformation (Inr (PyList [])),
      Call CategorizeContent [PyStr ''you are an idiot'', PyNone],
      Return CategorizeContent (Inr (PyList [PyStr ''harassment'']))]"
proof -
  have run: "result (analyze_text (sample_tools ''reject'') ''you are an idiot'' None (Some ''u1'')
               (sample_ctx False)) = Inr (PyDict sample_analysis)"
    by (simp add: run_analyze result_def)
  from analyze_text_call_order [OF run] run show ?thesis
    by (auto simp: sample_tools_def)
qed

section \<open>get_moderation_recommendation\<close>

text \<open>What lines 100 to 102 can come to.\<close>

lemma suggested_edits_step_cases:
  obtains
    (skip) "\<not> (action \<noteq> PyStr ''approve'' \<and> auto_moderate (deps ctx1))"
      "suggested_edits_step agent_tools action (frame_of ctx1 a d) =
         (Inr PyNone, frame_of ctx1 a d, [])"
  | (no_text) e where "action \<noteq> PyStr ''approve''" "auto_moderate (deps ctx1)"
      "getitem (PyDict a) ''text'' = Inl e"
      "suggested_edits_step agent_tools action (frame_of ctx1 a d) =
         (Inl e, frame_of ctx1 a d, [])"
  | (no_reasons) "text" e where "action \<noteq> PyStr ''approve''" "auto_moderate (deps ctx1)"
      "getitem (PyDict a) ''text'' = Inr text" "getitem d ''reasons'' = Inl e"
      "suggested_edits_step agent_tools action (frame_of ctx1 a d) =
         (Inl e, frame_of ctx1 a d, [])"
  | (call) "text" reasons r ctx2 text' reasons' where
      "action \<noteq> PyStr ''approve''" "auto_moderate (deps ctx1)"
      "getitem (PyDict a) ''text'' = Inr text" "getitem d ''reasons'' = Inr reasons"
      "suggest_content_edits agent_tools ctx1 text reasons = (r, ctx2, text', reasons')"
      "suggested_edits_step agent_tools action (frame_of ctx1 a d) =
         (r, frame_of ctx2 (with_entry a ''text'' text') (with_item d ''reasons'' reasons'),
          [Call SuggestContentEdits [text, reasons], Return SuggestContentEdits r])"
proof (cases "action \<noteq> PyStr ''approve'' \<and> auto_moderate (deps ctx1)")
  case False
  then show ?thesis
    using skip suggested_edits_step_skip by blast
next
  case True
  show ?thesis
  proof (cases "getitem (PyDict a) ''text''")
    case (Inl e)
    with True show ?thesis
      using no_text suggested_edits_step_no_text by blast
  next
    case txt0: (Inr "text")
    show ?thesis
    proof (cases "getitem d ''reasons''")
      case (Inl e)
      with True txt0 show ?thesis
        using no_reasons suggested_edits_step_no_reasons by blast
    next
      case reasons: (Inr reasons)
      obtain r ctx2 text' reasons' where
        "suggest_content_edits agent_tools ctx1 text reasons = (r, ctx2, text', reasons')"
        by (cases "suggest_content_edits agent_tools ctx1 text reasons") auto
      with True txt0 reasons show ?thesis
        using call suggested_edits_step_call by blast
    qed
  qed
qed

lemma display_returned:
  assumes "recommendation_display fr v = Inr r"
  shows "\<exists>m. r = PyDict m \<and>
           map fst m = [''original_text'', ''decision'', ''confidence'', ''reasons'',
                        ''policy_violations'', ''suggested_edits'', ''toxicity_scores'',
                        ''categories''] \<and>
           getitem r ''original_text'' = getitem (PyDict (analysis_dict fr)) ''text'' \<and>
           getitem r ''decision'' = getitem (decision_dict fr) ''action'' \<and>
           getitem r ''suggested_edits'' = Inr v \<and>
           getitem r ''toxicity_scores'' = getitem (PyDict (analysis_dict fr)) ''toxicity'' \<and>
           getitem r ''categories'' = getitem (PyDict (analysis_dict fr)) ''categories''"
  using assms
  by (auto simp: recommendation_display_def getitem_lit simp del: getitem.simps
      split: sum.splits)

text \<open>What a run of \<open>get_moderation_recommendation\<close> that returns has gone through.\<close>

lemma recommendation_returned:
  assumes "result (get_moderation_recommendation agent_tools analysis_result ctx) = Inr r"
  obtains d ctx1 a1 action v t where
    "get_moderation_decision agent_tools ctx analysis_result = (Inr d, ctx1, a1)"
    "getitem d ''action'' = Inr action"
    "suggested_edits_step agent_tools action (frame_of ctx1 a1 d) =
       (Inr v, ctx_after (get_moderation_recommendation agent_tools analysis_result ctx), t)"
    "call_log (get_moderation_recommendation agent_tools analysis_result ctx) =
       Call GetModerationDecision [PyDict analysis_result] #
       Return GetModerationDecision (Inr d) # t"
    "recommendation_display
       (ctx_after (get_moderation_recommendation agent_tools analysis_result ctx)) v = Inr r"
proof -
  obtain x ctx1 a1 where dec:
    "get_moderation_decision agent_tools ctx analysis_result = (x, ctx1, a1)"
    by (cases "get_moderation_decision agent_tools ctx analysis_result") auto
  show ?thesis
  proof (cases x)
    case (Inl e)
    with dec assms show ?thesis
      by (simp add: recommendation_decision_raised result_def)
  next
    case d: (Inr d)
    show ?thesis
    proof (cases "getitem d ''action''")
      case (Inl e)
      with dec d assms show ?thesis
        by (simp add: recommendation_no_action result_def del: getitem.simps)
    next
      case action: (Inr action)
      obtain y fr t where step:
        "suggested_edits_step agent_tools action (frame_of ctx1 a1 d) = (y, fr, t)"
        by (cases "suggested_edits_step agent_tools action (frame_of ctx1 a1 d)") auto
      show ?thesis
      proof (cases y)
        case (Inl e)
        with dec d action step assms show ?thesis
          by (simp add: recommendation_step_raised result_def del: getitem.simps)
      next
        case (Inr v)
        with dec d action step have run:
          "get_moderation_recommendation agent_tools analysis_result ctx =
             (recommendation_display fr v, fr,
              Call GetModerationDecision [PyDict analysis_result] #
              Return GetModerationDecision (Inr d) # t)"
          by (simp add: recommendation_step_returned del: getitem.simps)
        with assms dec d action step Inr that [of d ctx1 a1 action v t] show ?thesis
          by (simp add: run_defs del: getitem.simps)
      qed
    qed
  qed
qed

text \<open>Every shape a run of \<open>get_moderation_recommendation\<close> can have.\<close>

lemma recommendation_cases:
  obtains
    (decision_raised) e ctx1 a1 where
      "get_moderation_decision agent_tools ctx analysis_result = (Inl e, ctx1, a1)"
      "get_moderation_recommendation agent_tools analysis_result ctx =
         (Inl e, frame_of ctx1 a1 PyNone,
          [Call GetModerationDecision [PyDict analysis_result],
           Return GetModerationDecision (Inl e)])"
  | (no_action) d ctx1 a1 e where
      "get_moderation_decision agent_tools ctx analysis_result = (Inr d, ctx1, a1)"
      "getitem d ''action'' = Inl e"
      "get_moderation_recommendation agent_tools analysis_result ctx =
         (Inl e, frame_of ctx1 a1 d,
          [Call GetModerationDecision [PyDict analysis_result],
           Return GetModerationDecision (Inr d)])"
  | (step_raised) d ctx1 a1 action e fr t where
      "get_moderation_decision agent_tools ctx analysis_result = (Inr d, ctx1, a1)"
      "getitem d ''action'' = Inr action"
      "suggested_edits_step agent_tools action (frame_of ctx1 a1 d) = (Inl e, fr, t)"
      "get_moderation_recommendation agent_tools analysis_result ctx =
         (Inl e, fr,
          Call GetModerationDecision [PyDict analysis_result] #
          Return GetModerationDecision (Inr d) # t)"
  | (step_returned) d ctx1 a1 action v fr t where
      "get_moderation_decision agent_tools ctx analysis_result = (Inr d, ctx1, a1)"
      "getitem d ''action'' = Inr action"
      "suggested_edits_step agent_tools action (frame_of ctx1 a1 d) = (Inr v, fr, t)"
      "get_moderation_recommendation agent_tools analysis_result ctx =
         (recommendation_display fr v, fr,
          Call GetModerationDecision [PyDict analysis_result] #
          Return GetModerationDecision (Inr d) # t)"
proof -
  obtain x ctx1 a1 where dec:
    "get_moderation_decision agent_tools ctx analysis_result = (x, ctx1, a1)"
    by (cases "get_moderation_decision agent_tools ctx analysis_result") auto
  show ?thesis
  proof (cases x)
    case (Inl e)
    with dec show ?thesis
      using decision_raised recommendation_decision_raised by blast
  next
    case d: (Inr d)
    show ?thesis
    proof (cases "getitem d ''action''")
      case (Inl e)
      with dec d show ?thesis
        using no_action recommendation_no_action by blast
    next
      case action: (Inr action)
      obtain y fr t where step:
        "suggested_edits_step agent_tools action (frame_of ctx1 a1 d) = (y, fr, t)"
        by (cases "suggested_edits_step agent_tools action (frame_of ctx1 a1 d)") auto
      show ?thesis
      proof (cases y)
        case (Inl e)
        with dec d action step show ?thesis
          using step_raised recommendation_step_raised by blast
      next
        case (Inr v)
        with dec d action step show ?thesis
          using step_returned recommendation_step_returned by blast
      qed
    qed
  qed
qed






lemma suggested_edits_step_keeps:
  assumes "suggested_edits_step agent_tools action (frame_of ctx1 a d) = (y, fr, t)"
      and "k \<noteq> ''reasons''"
  shows "getitem (decision_dict fr) k = getitem d k"
  using assms(1)
  by (cases rule: suggested_edits_step_cases [of action ctx1 agent_tools a d])
     (auto simp: frame_of_fields getitem_with_item_other assms(2) simp del: getitem.simps)

text \<open>
  C1, as stated, fails: with the analysis result lacking \<^verbatim>\<open>"text"\<close>, the action "reject"
  and auto_moderate true, line 102 raises on its first argument and the edit helper is
  not called.
\<close>

theorem edit_helper_not_reached:
  "get_moderation_decision (sample_tools ''reject'') (sample_ctx True) textless_analysis =
     (Inr (sample_decision ''reject''), request (sample_ctx True), textless_analysis) \<and>
   getitem (sample_decision ''reject'') ''action'' = Inr (PyStr ''reject'') \<and>
   PyStr ''reject'' \<noteq> PyStr ''approve'' \<and>
   auto_moderate (deps (request (sample_ctx True))) \<and>
   calls_of SuggestContentEdits
     (call_log (get_moderation_recommendation (sample_tools ''reject'') textless_analysis
        (sample_ctx True))) = 0 \<and>
   result (get_moderation_recommendation (sample_tools ''reject'') textless_analysis
     (sample_ctx True)) = Inl (KeyError ''text'')"
  by (simp add: run_recommend_textless run_defs calls_of_def)
     (simp add: sample_defs)

text \<open>
  C1, amended. Let the decision helper return \<open>decision\<close>, leaving the context \<open>ctx1\<close>
  (where line 101 reads \<^verbatim>\<open>ctx.deps.auto_moderate\<close>) and the analysis result
  \<open>analysis_result1\<close>, and let \<open>action\<close> be \<^verbatim>\<open>decision["action"]\<close>. Then
  \<^verbatim>\<open>suggest_content_edits\<close> is called exactly when the action is not "approve",
  auto_moderate is true and both of its arguments, \<^verbatim>\<open>analysis_result["text"]\<close> and
  \<^verbatim>\<open>decision["reasons"]\<close>, can be read; it is then called once, in \<open>ctx1\<close>, on these two
  arguments, and the run goes on in the context the call leaves. In a run that returns,
  the entry suggested_edits is what that call returned when the action is not "approve"
  and auto_moderate is true, and None otherwise: it is other than None only when the
  action is not "approve" and auto_moderate is true, and it is None whenever
  auto_moderate is false, whatever the action.
\<close>

theorem suggested_edits_gate:
  assumes dec: "get_moderation_decision agent_tools ctx analysis_result =
                  (Inr decision, ctx1, analysis_result1)"
      and act: "getitem decision ''action'' = Inr action"
  shows "call_log (get_moderation_recommendation agent_tools analysis_result ctx) =
           Call GetModerationDecision [PyDict analysis_result] #
           Return GetModerationDecision (Inr decision) #
           (if action \<noteq> PyStr ''approve'' \<and> auto_moderate (deps ctx1) then
              (case getitem (PyDict analysis_result1) ''text'' of
                 Inl e \<Rightarrow> []
               | Inr text \<Rightarrow>
                   (case getitem decision ''reasons'' of
                      Inl e \<Rightarrow> []
                    | Inr reasons \<Rightarrow>
                        [Call SuggestContentEdits [text, reasons],
                         Return SuggestContentEdits
                           (fst (suggest_content_edits agent_tools ctx1 text reasons))]))
            else []) \<and>
         RunContext.truncate
             (ctx_after (get_moderation_recommendation agent_tools analysis_result ctx)) =
           (if action \<noteq> PyStr ''approve'' \<and> auto_moderate (deps ctx1) then
              (case getitem (PyDict analysis_result1) ''text'' of
                 Inl e \<Rightarrow> ctx1
               | Inr text \<Rightarrow>
                   (case getitem decision ''reasons'' of
                      Inl e \<Rightarrow> ctx1
                    | Inr reasons \<Rightarrow>
                        fst (snd (suggest_content_edits agent_tools ctx1 text reasons))))
            else ctx1) \<and>
         (\<forall>r. result (get_moderation_recommendation agent_tools analysis_result ctx) = Inr r \<longrightarrow>
            getitem r ''decision'' = Inr action \<and>
            getitem r ''suggested_edits'' =
              (if action \<noteq> PyStr ''approve'' \<and> auto_moderate (deps ctx1) then
                 (case getitem (PyDict analysis_result1) ''text'' of
                    Inl e \<Rightarrow> Inl e
                  | Inr text \<Rightarrow>
                      (case getitem decision ''reasons'' of
                         Inl e \<Rightarrow> Inl e
                       | Inr reasons \<Rightarrow>
                           fst (suggest_content_edits agent_tools ctx1 text reasons)))
               else Inr PyNone) \<and>
            (getitem r ''suggested_edits'' \<noteq> Inr PyNone \<longrightarrow>
               action \<noteq> PyStr ''approve'' \<and> auto_moderate (deps ctx1)) \<and>
            (\<not> auto_moderate (deps ctx1) \<longrightarrow> getitem r ''suggested_edits'' = Inr PyNone))"
proof (cases rule: suggested_edits_step_cases [of action ctx1 agent_tools analysis_result1 decision])
  case skip
  from recommendation_step_returned [OF dec act skip(2)] skip(1) act
  show ?thesis
    using display_returned [of "frame_of ctx1 analysis_result1 decision" PyNone]
    by (auto simp: run_defs frame_of_fields simp del: getitem.simps)
next
  case (no_text e)
  from recommendation_step_raised [OF dec act no_text(4)] no_text(1-3)
  show ?thesis
    by (simp add: run_defs frame_of_fields del: getitem.simps)
next
  case (no_reasons "text" e)
  from recommendation_step_raised [OF dec act no_reasons(5)] no_reasons(1-4)
  show ?thesis
    by (simp add: run_defs frame_of_fields del: getitem.simps)
next
  case (call "text" reasons y ctx2 text' reasons')
  show ?thesis
  proof (cases y)
    case (Inl e)
    with recommendation_step_raised [OF dec act call(6) [unfolded Inl]] call(1-5)
    show ?thesis
      by (simp add: run_defs frame_of_fields del: getitem.simps)
  next
    case (Inr v)
    let ?fr = "frame_of ctx2 (with_entry analysis_result1 ''text'' text')
                 (with_item decision ''reasons'' reasons')"
    from act have "getitem (decision_dict ?fr) ''action'' = Inr action"
      by (simp add: frame_of_fields getitem_with_item_other del: getitem.simps)
    with recommendation_step_returned [OF dec act call(6) [unfolded Inr]] call(1-5) Inr
    show ?thesis
      using display_returned [of ?fr v]
      by (auto simp: run_defs frame_of_fields simp del: getitem.simps)
  qed
qed

theorem suggested_edits_gate_witness:
  "get_moderation_decision (sample_tools ''reject'') (sample_ctx True) sample_analysis =
     (Inr (sample_decision ''reject''), request (sample_ctx True), sample_analysis) \<and>
   getitem (sample_decision ''reject'') ''action'' = Inr (PyStr ''reject'') \<and>
   auto_moderate (deps (request (sample_ctx True))) \<and>
   call_log (get_moderation_recommendation (sample_tools ''reject'') sample_analysis
     (sample_ctx True)) =
     [Call GetModerationDecision [PyDict sample_analysis],
      Return GetModerationDecision (Inr (sample_decision ''reject'')),
      Call SuggestContentEdits [PyStr ''you are an idiot'', PyList [PyStr ''insult'']],
      Return SuggestContentEdits
        (fst (suggest_content_edits (sample_tools ''reject'') (request (sample_ctx True))
           (PyStr ''you are an idiot'') (PyList [PyStr ''insult''])))] \<and>
   result (get_moderation_recommendation (sample_tools ''reject'') sample_analysis
     (sample_ctx True)) = Inr (sample_recommendation ''reject'' (PyStr ''you are wrong'')) \<and>
   getitem (sample_recommendation ''reject'' (PyStr ''you are wrong'')) ''suggested_edits'' =
     fst (suggest_content_edits (sample_tools ''reject'') (request (sample_ctx True))
       (PyStr ''you are an idiot'') (PyList [PyStr ''insult''])) \<and>
   get_moderation_decision (sample_tools ''reject'') (sample_ctx False) sample_analysis =
     (Inr (sample_decision ''reject''), request (sample_ctx False), sample_analysis) \<and>
   \<not> auto_moderate (deps (request (sample_ctx False))) \<and>
   call_log (get_moderation_recommendation (sample_tools ''reject'') sample_analysis
     (sample_ctx False)) =
     [Call GetModerationDecision [PyDict sample_analysis],
      Return GetModerationDecision (Inr (sample_decision ''reject''))] \<and>
   result (get_moderation_recommendation (sample_tools ''reject'') sample_analysis
     (sample_ctx False)) = Inr (sample_recommendation ''reject'' PyNone) \<and>
   getitem (sample_recommendation ''reject'' PyNone) ''suggested_edits'' = Inr PyNone"
proof -
  have dec: "get_moderation_decision (sample_tools ''reject'') (sample_ctx b) sample_analysis =
               (Inr (sample_decision ''reject''), request (sample_ctx b), sample_analysis)" for b
    by (simp add: sample_tools_def)
  have act: "getitem (sample_decision ''reject'') ''action'' = Inr (PyStr ''reject'')"
    by (simp add: sample_decision_def sample_decision_entries_def)
  have auto_on: "auto_moderate (deps (request (sample_ctx True)))"
    and auto_off: "\<not> auto_moderate (deps (request (sample_ctx False)))"
    by (simp_all add: sample_ctx_def request_def Deps_init_def)
  have args: "getitem (PyDict sample_analysis) ''text'' = Inr (PyStr ''you are an idiot'')"
    "getitem (sample_decision ''reject'') ''reasons'' = Inr (PyList [PyStr ''insult''])"
    by (simp_all add: sample_analysis_def sample_decision_def sample_decision_entries_def)
  have run_on: "result (get_moderation_recommendation (sample_tools ''reject'') sample_analysis
               (sample_ctx True)) = Inr (sample_recommendation ''reject'' (PyStr ''you are wrong''))"
    by (simp add: run_recommend_edits result_def)
  have run_off: "result (get_moderation_recommendation (sample_tools ''reject'') sample_analysis
               (sample_ctx False)) = Inr (sample_recommendation ''reject'' PyNone)"
    by (simp add: run_recommend_plain result_def)
  from suggested_edits_gate [OF dec act, of True] suggested_edits_gate [OF dec act, of False]
    dec act auto_on auto_off args run_on run_off
  show ?thesis
    by (simp del: getitem.simps)
qed

lemma sample_tools_spec:
  "a \<in> set moderation_actions \<Longrightarrow> decision_helper_spec (sample_tools a)"
  by (auto simp: decision_helper_spec_def sample_tools_def sample_decision_def
      sample_decision_entries_def is_moderation_decision_def)

text \<open>
  C5. When the decision helper keeps to what the spec says of a moderation decision, the
  entry decision of every recommendation returned is "approve", "flag_for_review" or
  "reject": the tool copies the action of the decision, unchecked.
\<close>

theorem decision_is_an_action:
  assumes "decision_helper_spec agent_tools"
      and "result (get_moderation_recommendation agent_tools analysis_result ctx) = Inr r"
  shows "getitem r ''decision'' = Inr (PyStr ''approve'') \<or>
         getitem r ''decision'' = Inr (PyStr ''flag_for_review'') \<or>
         getitem r ''decision'' = Inr (PyStr ''reject'')"
proof -
  from assms(2) obtain d ctx1 a1 action v t where
    dec: "get_moderation_decision agent_tools ctx analysis_result = (Inr d, ctx1, a1)" and
    step: "suggested_edits_step agent_tools action (frame_of ctx1 a1 d) =
       (Inr v, ctx_after (get_moderation_recommendation agent_tools analysis_result ctx), t)" and
    disp: "recommendation_display
       (ctx_after (get_moderation_recommendation agent_tools analysis_result ctx)) v = Inr r"
    by (rule recommendation_returned)
  from display_returned [OF disp] suggested_edits_step_keeps [OF step, of "''action''"]
  have same: "getitem r ''decision'' = getitem d ''action''"
    by (auto simp del: getitem.simps)
  from assms(1) dec have "is_moderation_decision d"
    unfolding decision_helper_spec_def by blast
  then have "is_action (getitem d ''action'')"
    by (simp add: is_moderation_decision_def)
  then show ?thesis
    unfolding same
    by (cases "getitem d ''action''" rule: is_action.cases)
       (auto simp: moderation_actions_def)
qed

theorem decision_is_an_action_witness:
  "decision_helper_spec (sample_tools ''reject'') \<and>
   result (get_moderation_recommendation (sample_tools ''reject'') sample_analysis
     (sample_ctx False)) = Inr (sample_recommendation ''reject'' PyNone) \<and>
   getitem (sample_recommendation ''reject'' PyNone) ''decision'' = Inr (PyStr ''reject'')"
proof -
  have spec: "decision_helper_spec (sample_tools ''reject'')"
    by (rule sample_tools_spec) (simp add: moderation_actions_def)
  have run: "result (get_moderation_recommendation (sample_tools ''reject'') sample_analysis
               (sample_ctx False)) = Inr (sample_recommendation ''reject'' PyNone)"
    by (simp add: run_recommend_plain result_def)
  have "getitem (sample_recommendation ''reject'' PyNone) ''decision'' \<noteq> Inr (PyStr ''approve'')"
       "getitem (sample_recommendation ''reject'' PyNone) ''decision'' \<noteq>
          Inr (PyStr ''flag_for_review'')"
    by (simp_all add: sample_recommendation_def)
  with decision_is_an_action [OF spec run] spec run show ?thesis
    by simp
qed

section \<open>Missing keys\<close>









section \<open>Deps\<close>

lemma keeps_deps_expr: "keeps_deps (expr x)"
  by (simp add: keeps_deps_def expr_def ctx_after_def)

lemma keeps_deps_await:
  assumes "\<And>ctx. deps (snd (f ctx)) = deps ctx"
  shows "keeps_deps (await h args f)"
  unfolding keeps_deps_def
proof
  fix ctx
  obtain r c' where f: "f ctx = (r, c')"
    by (cases "f ctx") auto
  with assms [of ctx] have "deps c' = deps ctx"
    by simp
  with f show "deps (ctx_after (await h args f ctx)) = deps ctx"
    by (simp add: await_def ctx_after_def)
qed

lemma keeps_deps_bind:
  assumes "keeps_deps m" and "\<And>v. keeps_deps (k v)"
  shows "keeps_deps (bind m k)"
  unfolding keeps_deps_def
proof
  fix ctx
  obtain r c1 t1 where m: "m ctx = (r, c1, t1)"
    by (cases "m ctx") auto
  from assms(1) m have d1: "deps c1 = deps ctx"
    by (auto simp: keeps_deps_def ctx_after_def dest: spec [of _ ctx])
  show "deps (ctx_after (bind m k ctx)) = deps ctx"
  proof (cases r)
    case (Inl e)
    with m d1 show ?thesis
      by (simp add: bind_def ctx_after_def)
  next
    case (Inr v)
    obtain r2 c2 t2 where k: "k v c1 = (r2, c2, t2)"
      by (cases "k v c1") auto
    from assms(2) [of v] k have "deps c2 = deps c1"
      by (auto simp: keeps_deps_def ctx_after_def dest: spec [of _ c1])
    with Inr m k d1 show ?thesis
      by (simp add: bind_def ctx_after_def)
  qed
qed

lemmas keeps_deps_intros = keeps_deps_bind keeps_deps_expr keeps_deps_await

lemma keeps_deps_analyze_text:
  assumes "helpers_keep_deps agent_tools"
  shows "keeps_deps (analyze_text agent_tools text context user_id)"
  unfolding analyze_text_def
  using assms by (intro keeps_deps_intros) (simp_all add: helpers_keep_deps_def)

lemma suggested_edits_step_deps:
  assumes "helpers_keep_deps agent_tools"
      and "suggested_edits_step agent_tools action (frame_of ctx1 a d) = (y, fr, t)"
  shows "deps fr = deps ctx1"
  using assms(2)
proof (cases rule: suggested_edits_step_cases [of action ctx1 agent_tools a d])
  case (call "text" reasons r ctx2 text' reasons')
  from assms(1) have
    "deps (fst (snd (suggest_content_edits agent_tools ctx1 text reasons))) = deps ctx1"
    by (simp add: helpers_keep_deps_def)
  with call assms(2) show ?thesis
    by (auto simp: frame_of_fields)
qed (auto simp: frame_of_fields)

lemma recommendation_deps:
  assumes "helpers_keep_deps agent_tools"
  shows "deps (ctx_after (get_moderation_recommendation agent_tools analysis_result ctx)) =
           deps ctx"
proof -
  have dec: "deps ctx1 = deps ctx"
    if "get_moderation_decision agent_tools ctx analysis_result = (x, ctx1, a1)" for x ctx1 a1
  proof -
    from assms have
      "deps (fst (snd (get_moderation_decision agent_tools ctx analysis_result))) = deps ctx"
      by (simp add: helpers_keep_deps_def)
    with that show ?thesis
      by simp
  qed
  show ?thesis
  proof (cases rule: recommendation_cases [of agent_tools ctx analysis_result])
    case (decision_raised e ctx1 a1)
    with dec show ?thesis
      by (simp add: ctx_after_def frame_of_fields)
  next
    case (no_action d ctx1 a1 e)
    with dec show ?thesis
      by (simp add: ctx_after_def frame_of_fields)
  next
    case (step_raised d ctx1 a1 action e fr t)
    with dec suggested_edits_step_deps [OF assms step_raised(3)] show ?thesis
      by (simp add: ctx_after_def)
  next
    case (step_returned d ctx1 a1 action v fr t)
    with dec suggested_edits_step_deps [OF assms step_returned(3)] show ?thesis
      by (simp add: ctx_after_def)
  qed
qed

lemma sample_tools_keep_deps: "helpers_keep_deps (sample_tools a)"
  by (simp add: helpers_keep_deps_def sample_tools_def request_def)

text \<open>
  C6. Neither tool assigns to a field of \<open>ctx.deps\<close>: when the external helpers leave
  \<open>ctx.deps\<close> as it is, every field of it (client, moderation_api_key,
  custom_content_policies, sensitivity_threshold, store_flagged_content, auto_moderate)
  has after a run of \<open>analyze_text\<close> or of \<open>get_moderation_recommendation\<close> the value it
  had before, whether the run returns or raises.
\<close>

theorem deps_never_assigned:
  assumes "helpers_keep_deps agent_tools"
  shows "deps (ctx_after (analyze_text agent_tools text context user_id ctx)) = deps ctx \<and>
         deps (ctx_after (get_moderation_recommendation agent_tools analysis_result ctx)) =
           deps ctx"
  using keeps_deps_analyze_text [OF assms] recommendation_deps [OF assms]
  by (simp add: keeps_deps_def)

theorem deps_never_assigned_witness:
  "helpers_keep_deps (sample_tools ''reject'') \<and>
   deps (ctx_after (analyze_text (sample_tools ''reject'') ''you are an idiot'' None
          (Some ''u1'') (sample_ctx True))) = deps (sample_ctx True) \<and>
   deps (ctx_after (get_moderation_recommendation (sample_tools ''reject'') sample_analysis
          (sample_ctx True))) = deps (sample_ctx True)"
  using deps_never_assigned [OF sample_tools_keep_deps, of "''reject''"] sample_tools_keep_deps
  by simp

text \<open>
  C7, as stated, fails: the constructor of \<open>Deps\<close> checks no range, and a threshold of 5
  is stored as it is.
\<close>

theorem threshold_out_of_range:
  "\<not> (0 \<le> sensitivity_threshold (Deps_init (AsyncClient 0) None None (Some 5) None None) \<and>
      sensitivity_threshold (Deps_init (AsyncClient 0) None None (Some 5) None None) \<le> 1)"
  by (simp add: Deps_init_def)

text \<open>
  C7, amended. A \<open>Deps\<close> built without a \<open>sensitivity_threshold\<close> argument has the default
  0.7, which lies between 0.0 and 1.0; a threshold that is given is stored unchanged,
  whatever its value.
\<close>

theorem threshold_default_or_given:
  "sensitivity_threshold (Deps_init cl api_key policies None store auto) = 7 / 10 \<and>
   0 \<le> sensitivity_threshold (Deps_init cl api_key policies None store auto) \<and>
   sensitivity_threshold (Deps_init cl api_key policies None store auto) \<le> 1 \<and>
   sensitivity_threshold (Deps_init cl api_key policies (Some t) store auto) = t"
  by (simp add: Deps_init_def)

section \<open>The agent and what the tools do about failures\<close>

lemma unhandled_expr: "unhandled (expr x c)"
  by (simp add: unhandled_def expr_def run_defs)

lemma unhandled_await: "unhandled (await h args f c)"
  by (auto simp: unhandled_def await_def run_defs split: prod.splits)

lemma unhandled_bind:
  assumes "\<And>c. unhandled (m c)" and "\<And>v c. unhandled (k v c)"
  shows "unhandled (bind m k c)"
proof -
  obtain r c1 t1 where m: "m c = (r, c1, t1)"
    by (cases "m c") auto
  show ?thesis
  proof (cases r)
    case (Inl e)
    with m assms(1) [of c] show ?thesis
      by (simp add: bind_def)
  next
    case (Inr v)
    obtain r2 c2 t2 where k: "k v c1 = (r2, c2, t2)"
      by (cases "k v c1") auto
    from assms(1) [of c] m Inr have "\<forall>h e. Return h (Inl e) \<notin> set t1"
      by (auto simp: unhandled_def run_defs)
    with assms(2) [of v c1] k m Inr show ?thesis
      by (auto simp: unhandled_def run_defs bind_def)
  qed
qed

lemmas unhandled_intros = unhandled_bind unhandled_expr unhandled_await

lemma unhandled_analyze_text: "unhandled (analyze_text agent_tools text context user_id ctx)"
  unfolding analyze_text_def by (intro unhandled_intros)

lemma analyze_text_calls_once:
  "calls_of h (call_log (analyze_text agent_tools text context user_id ctx)) \<le> 1"
  unfolding analyze_text_def
  by (simp add: parts split: sum.splits)

lemma suggested_edits_step_log:
  assumes "suggested_edits_step agent_tools action (frame_of ctx1 a d) = (y, fr, t)"
  shows "t = [] \<or> (\<exists>args. t = [Call SuggestContentEdits args, Return SuggestContentEdits y])"
  using assms
  by (cases rule: suggested_edits_step_cases [of action ctx1 agent_tools a d]) auto

lemma unhandled_recommendation:
  "unhandled (get_moderation_recommendation agent_tools analysis_result ctx)"
proof (cases rule: recommendation_cases [of agent_tools ctx analysis_result])
  case (step_raised d ctx1 a1 action e fr t)
  with suggested_edits_step_log [OF step_raised(3)] show ?thesis
    by (auto simp: unhandled_def run_defs)
next
  case (step_returned d ctx1 a1 action v fr t)
  with suggested_edits_step_log [OF step_returned(3)] show ?thesis
    by (auto simp: unhandled_def run_defs)
qed (auto simp: unhandled_def run_defs)

lemma recommendation_calls_once:
  "calls_of h (call_log (get_moderation_recommendation agent_tools analysis_result ctx)) \<le> 1"
proof (cases rule: recommendation_cases [of agent_tools ctx analysis_result])
  case (step_raised d ctx1 a1 action e fr t)
  with suggested_edits_step_log [OF step_raised(3)] show ?thesis
    by (auto simp: run_defs calls_of_def)
next
  case (step_returned d ctx1 a1 action v fr t)
  with suggested_edits_step_log [OF step_returned(3)] show ?thesis
    by (auto simp: run_defs calls_of_def)
qed (auto simp: run_defs calls_of_def)

text \<open>
  C8. The agent is built with \<open>retries = 2\<close>, and the two tools add nothing to it: in
  every run of either tool an exception that a helper call ends in is the outcome of the
  run (nothing is caught), and no helper is called more than once (nothing is tried
  again).
\<close>

theorem retries_only:
  "retries (text_moderation_agent SYSTEM_PROMPT) = 2 \<and>
   (\<forall>h e. Return h (Inl e) \<in> set (call_log (analyze_text agent_tools text context user_id ctx))
      \<longrightarrow> result (analyze_text agent_tools text context user_id ctx) = Inl e) \<and>
   (\<forall>h e. Return h (Inl e) \<in>
             set (call_log (get_moderation_recommendation agent_tools analysis_result ctx))
      \<longrightarrow> result (get_moderation_recommendation agent_tools analysis_result ctx) = Inl e) \<and>
   (\<forall>h. calls_of h (call_log (analyze_text agent_tools text context user_id ctx)) \<le> 1) \<and>
   (\<forall>h. calls_of h (call_log (get_moderation_recommendation agent_tools analysis_result ctx))
      \<le> 1)"
  using unhandled_analyze_text [of agent_tools "text" "context" user_id ctx]
    unhandled_recommendation [of agent_tools analysis_result ctx]
    analyze_text_calls_once [of _ agent_tools "text" "context" user_id ctx]
    recommendation_calls_once [of _ agent_tools analysis_result ctx]
  by (simp add: unhandled_def text_moderation_agent_def)

theorem retries_only_witness:
  "retries (text_moderation_agent ''You are a moderator.'') = 2 \<and>
   Return CategorizeContent (Inl (OtherError ''ConnectError'')) \<in>
     set (call_log (analyze_text categories_down_tools ''you are an idiot'' None (Some ''u1'')
            (sample_ctx False))) \<and>
   result (analyze_text categories_down_tools ''you are an idiot'' None (Some ''u1'')
     (sample_ctx False)) = Inl (OtherError ''ConnectError'') \<and>
   Return SuggestContentEdits (Inl (OtherError ''ConnectError'')) \<in>
     set (call_log (get_moderation_recommendation edits_down_tools partial_analysis
            (sample_ctx True))) \<and>
   result (get_moderation_recommendation edits_down_tools partial_analysis (sample_ctx True)) =
     Inl (OtherError ''ConnectError'')"
proof -
  have 1: "Return CategorizeContent (Inl (OtherError ''ConnectError'')) \<in>
     set (call_log (analyze_text categories_down_tools ''you are an idiot'' None (Some ''u1'')
            (sample_ctx False)))"
    by (simp add: run_analyze_down call_log_def)
  have 2: "Return SuggestContentEdits (Inl (OtherError ''ConnectError'')) \<in>
     set (call_log (get_moderation_recommendation edits_down_tools partial_analysis
            (sample_ctx True)))"
    by (simp add: run_recommend_down call_log_def)
  from
    retries_only [of "''You are a moderator.''" categories_down_tools "''you are an idiot''"
      None "Some ''u1''" "sample_ctx False" partial_analysis]
    retries_only [of "''You are a moderator.''" edits_down_tools "''you are an idiot''"
      None "Some ''u1''" "sample_ctx True" partial_analysis]
    1 2
  show ?thesis
    by blast
qed

end
